theory Spec2Isabelle
  imports Main
begin

section \<open>Strings as the runtime sees them\<close>

text \<open>
  A JavaScript string is a sequence of code units. The model uses \<open>string\<close> (a list of
  8-bit characters), that is, the code units U+0000 to U+00FF; text outside that range is
  outside the model. Within the range, \<open>String.prototype.trim\<close> removes TAB, LF, VT, FF,
  CR, SPACE and NO-BREAK SPACE from both ends, and \<open>toLowerCase\<close> maps \<open>A-Z\<close> and the
  Latin-1 capitals (U+00C0 to U+00DE without U+00D7) to the letter 32 positions later.
\<close>

definition is_white_space :: "char \<Rightarrow> bool" where
  "is_white_space c \<longleftrightarrow>
     c \<in> set [CHR 0x09, CHR 0x0A, CHR 0x0B, CHR 0x0C, CHR 0x0D, CHR 0x20, CHR 0xA0]"

definition trim :: "string \<Rightarrow> string" where
  "trim s = rev (dropWhile is_white_space (rev (dropWhile is_white_space s)))"

definition lower_char :: "char \<Rightarrow> char" where
  "lower_char c =
     (let n = (of_char c :: nat)
      in if (65 \<le> n \<and> n \<le> 90) \<or> (192 \<le> n \<and> n \<le> 222 \<and> n \<noteq> 215)
         then char_of (n + 32) else c)"

definition toLowerCase :: "string \<Rightarrow> string" where
  "toLowerCase s = map lower_char s"

fun starts_with :: "string \<Rightarrow> string \<Rightarrow> bool" where
  "starts_with s [] = True"
| "starts_with [] (p # ps) = False"
| "starts_with (c # cs) (p # ps) = (c = p \<and> starts_with cs ps)"

text \<open>\<open>includes_str s sub\<close> is \<open>s.includes(sub)\<close>: \<open>sub\<close> occurs in \<open>s\<close> at some position.\<close>

fun includes_str :: "string \<Rightarrow> string \<Rightarrow> bool" where
  "includes_str [] sub = (sub = [])"
| "includes_str (c # cs) sub = (starts_with (c # cs) sub \<or> includes_str cs sub)"

subsection \<open>The two regular expressions of the source\<close>

text \<open>
  Both expressions are anchored (\<open>^...$\<close>, no \<open>m\<close> flag) sequences of one-character
  classes, so a match is a position-by-position test of the whole string.
  \<open>UUID_RE\<close> is \<open>/^[0-9a-f]{8}-[0-9a-f]{4}-[1-5][0-9a-f]{3}-[89ab][0-9a-f]{3}-[0-9a-f]{12}$/i\<close>;
  with the \<open>i\<close> flag a letter class also accepts the capital letter.
\<close>

fun regex_test :: "(char \<Rightarrow> bool) list \<Rightarrow> string \<Rightarrow> bool" where
  "regex_test [] [] = True"
| "regex_test (p # ps) (c # cs) = (p c \<and> regex_test ps cs)"
| "regex_test [] (c # cs) = False"
| "regex_test (p # ps) [] = False"

definition hex_i :: "char \<Rightarrow> bool" where
  "hex_i c \<longleftrightarrow> c \<in> set ''0123456789abcdefABCDEF''"

definition version_i :: "char \<Rightarrow> bool" where
  "version_i c \<longleftrightarrow> c \<in> set ''12345''"

definition variant_i :: "char \<Rightarrow> bool" where
  "variant_i c \<longleftrightarrow> c \<in> set ''89abAB''"

definition dash :: "char \<Rightarrow> bool" where
  "dash c \<longleftrightarrow> c = CHR ''-''"

definition digit :: "char \<Rightarrow> bool" where
  "digit c \<longleftrightarrow> c \<in> set ''0123456789''"

definition UUID_RE :: "(char \<Rightarrow> bool) list" where
  "UUID_RE = replicate 8 hex_i @ [dash] @ replicate 4 hex_i @ [dash]
     @ [version_i] @ replicate 3 hex_i @ [dash]
     @ [variant_i] @ replicate 3 hex_i @ [dash] @ replicate 12 hex_i"

text \<open>\<open>DATE_RE\<close> is \<open>/^\d{4}-\d{2}-\d{2}$/\<close>.\<close>

definition DATE_RE :: "(char \<Rightarrow> bool) list" where
  "DATE_RE = replicate 4 digit @ [dash] @ replicate 2 digit @ [dash] @ replicate 2 digit"

section \<open>The application record and the table\<close>

text \<open>
  \<open>src/lib/types/index.ts\<close> (interface \<open>Application\<close>) and the \<open>CREATE TABLE\<close> of
  \<open>supabase_migration_applications.sql\<close>. The field \<open>id\<close> is named \<open>app_id\<close> here;
  \<open>notes\<close> is nullable; the two timestamps are points of the engine's clock.
\<close>

datatype ApplicationStatus = Applied | Interviewing | Offer | Rejected | Withdrawn

record Application =
  app_id :: string
  user_id :: string
  company_name :: string
  position_title :: string
  status :: ApplicationStatus
  application_date :: string
  "notes" :: "string option"
  created_at :: nat
  updated_at :: nat

text \<open>
  The argument of \<open>createApplication\<close>: the record's fields without owner, id and
  timestamps; \<open>notes\<close> may be missing (\<open>None\<close>), \<open>null\<close> (\<open>Some None\<close>) or a string.
\<close>

record CreateData =
  new_company_name :: string
  new_position_title :: string
  new_application_date :: string
  new_status :: ApplicationStatus
  new_notes :: "string option option"

text \<open>The object literal that \<open>createApplication\<close> hands to \<open>.insert\<close>.\<close>

record InsertValues =
  ins_user_id :: string
  ins_company_name :: string
  ins_position_title :: string
  ins_application_date :: string
  ins_status :: ApplicationStatus
  ins_notes :: "string option"

text \<open>
  The argument of \<open>updateApplication\<close>: every field is optional (\<open>None\<close> is
  \<open>undefined\<close>); a supplied \<open>notes\<close> is a string or \<open>null\<close>.
\<close>

record UpdateData =
  set_company_name :: "string option"
  set_position_title :: "string option"
  set_application_date :: "string option"
  set_status :: "ApplicationStatus option"
  set_notes :: "string option option"

subsection \<open>Row level security\<close>

text \<open>
  The four policies of the migration, each the predicate \<open>auth.uid() = user_id\<close>.
  \<open>auth.uid()\<close> is \<open>None\<close> for a caller without a verified identity, and the comparison
  is then not true.
\<close>

definition select_using :: "string option \<Rightarrow> Application \<Rightarrow> bool" where
  "select_using uid r \<longleftrightarrow> uid = Some (user_id r)"

definition insert_check :: "string option \<Rightarrow> Application \<Rightarrow> bool" where
  "insert_check uid r \<longleftrightarrow> uid = Some (user_id r)"

definition update_using :: "string option \<Rightarrow> Application \<Rightarrow> bool" where
  "update_using uid r \<longleftrightarrow> uid = Some (user_id r)"

definition update_check :: "string option \<Rightarrow> Application \<Rightarrow> bool" where
  "update_check uid r \<longleftrightarrow> uid = Some (user_id r)"

definition delete_using :: "string option \<Rightarrow> Application \<Rightarrow> bool" where
  "delete_using uid r \<longleftrightarrow> uid = Some (user_id r)"

section \<open>The world of one request\<close>

text \<open>
  \<open>Store\<close> is what a call can change: the rows of the table, the statements sent to the
  storage engine so far, and the lines written with \<open>console.error\<close>.
\<close>

datatype Statement =
    SelectAll
  | SelectById string
  | InsertRow InsertValues
  | UpdateById string UpdateData
  | DeleteById string

record Store =
  table :: "Application list"
  issued :: "Statement list"
  console :: "string list"

text \<open>
  \<open>Env\<close> is what a call cannot choose: the answer of \<open>supabase.auth.getUser()\<close> for the
  request's cookies (\<open>session_user\<close> is \<open>user.id\<close>, \<open>None\<close> for a null user;
  \<open>session_error\<close> is \<open>authError\<close>), a failure of the storage engine for the statement
  of this call (\<open>engine_error\<close>, the \<open>message\<close> of the \<open>error\<close> the client library
  returns: connectivity, time-out, a constraint the validation does not cover), the value
  \<open>gen_random_uuid()\<close> yields, the engine's \<open>now()\<close>, and whether the runtime's
  \<open>new Date(s)\<close> is a valid date.

  The client library resolves every awaited call to a \<open>{data, error}\<close> value and does not
  reject (the source never sets \<open>throwOnError\<close>), so the \<open>catch\<close> blocks of the data
  access layer are not reached by the calls modelled here.
\<close>

record Env =
  session_user :: "string option"
  session_error :: "string option"
  engine_error :: "string option"
  generated_id :: string
  clock :: nat
  date_parses :: "string \<Rightarrow> bool"

text \<open>
  The identity the policies see: the queries carry the token of the session that
  \<open>getUser\<close> verified, so \<open>auth.uid()\<close> is that user's id.
\<close>

definition auth_uid :: "Env \<Rightarrow> string option" where
  "auth_uid env = (case session_error env of Some e \<Rightarrow> None | None \<Rightarrow> session_user env)"

datatype 'a Reply = Data 'a | Error string

subsection \<open>The storage engine\<close>

text \<open>
  The engine (PostgreSQL behind the PostgREST interface that the client library talks to)
  is not part of the repository. What the repository fixes is the table, the trigger and
  the policies of the migration and the statements the data access layer builds; how the
  engine runs such a statement under the policies is written here as those systems
  document it.

  The column \<open>id\<close> has type \<open>UUID\<close>: the engine reads the text of a filter value
  case-insensitively and prints ids in lower case.
\<close>

definition uuid_text :: "string \<Rightarrow> string" where
  "uuid_text s = toLowerCase s"

definition eq_id :: "string \<Rightarrow> Application \<Rightarrow> bool" where
  "eq_id x r \<longleftrightarrow> uuid_text (app_id r) = uuid_text x"

text \<open>
  The message of the error with code PGRST116. Newer servers word it \<open>Cannot coerce the
  result to a single JSON object\<close>; the data access layer treats both alike.
\<close>

definition PGRST116 :: string where
  "PGRST116 = ''JSON object requested, multiple (or no) rows returned''"

definition rls_violation :: string where
  "rls_violation = ''new row violates row-level security policy for table ''
     @ [CHR 0x22] @ ''applications'' @ [CHR 0x22]"

definition pkey_violation :: string where
  "pkey_violation = ''duplicate key value violates unique constraint ''
     @ [CHR 0x22] @ ''applications_pkey'' @ [CHR 0x22]"

definition send :: "Statement \<Rightarrow> Store \<Rightarrow> Store" where
  "send q w = w\<lparr>issued := issued w @ [q]\<rparr>"

text \<open>
  What the policies do to a statement. A statement reads only rows that pass the select
  policy; an \<open>UPDATE\<close> or \<open>DELETE\<close> with a \<open>WHERE\<close> clause touches only rows that pass
  the select policy and its own \<open>USING\<close>; a new row, and the new value of an updated
  row, must pass the \<open>WITH CHECK\<close>, or the statement fails as a whole. \<open>cond\<close> is the
  filter the statement itself supplies.
\<close>

definition rls_select ::
  "string option \<Rightarrow> (Application \<Rightarrow> bool) \<Rightarrow> Application list \<Rightarrow> Application list" where
  "rls_select uid cond rows = filter (\<lambda>r. select_using uid r \<and> cond r) rows"

definition rls_insert ::
  "string option \<Rightarrow> Application \<Rightarrow> Application list \<Rightarrow> Application list option" where
  "rls_insert uid r rows =
     (if insert_check uid r \<and> select_using uid r then Some (rows @ [r]) else None)"

definition update_target :: "string option \<Rightarrow> (Application \<Rightarrow> bool) \<Rightarrow> Application \<Rightarrow> bool" where
  "update_target uid cond r \<longleftrightarrow> select_using uid r \<and> update_using uid r \<and> cond r"

definition rls_update ::
  "string option \<Rightarrow> (Application \<Rightarrow> bool) \<Rightarrow> (Application \<Rightarrow> Application) \<Rightarrow> Application list
     \<Rightarrow> (Application list \<times> Application list) option" where
  "rls_update uid cond f rows =
     (let targets = filter (update_target uid cond) rows in
      if list_all (\<lambda>t. update_check uid (f t)) targets
      then Some (map f targets, map (\<lambda>r. if update_target uid cond r then f r else r) rows)
      else None)"

definition delete_target :: "string option \<Rightarrow> (Application \<Rightarrow> bool) \<Rightarrow> Application \<Rightarrow> bool" where
  "delete_target uid cond r \<longleftrightarrow> select_using uid r \<and> delete_using uid r \<and> cond r"

definition rls_delete ::
  "string option \<Rightarrow> (Application \<Rightarrow> bool) \<Rightarrow> Application list
     \<Rightarrow> Application list \<times> Application list" where
  "rls_delete uid cond rows =
     (filter (delete_target uid cond) rows, filter (\<lambda>r. \<not> delete_target uid cond r) rows)"

text \<open>\<open>.select('*').order('created_at', {ascending: false})\<close>\<close>

definition engine_select_all :: "Env \<Rightarrow> Store \<Rightarrow> Application list Reply \<times> Store" where
  "engine_select_all env w =
     (let w1 = send SelectAll w in
      case engine_error env of
        Some m \<Rightarrow> (Error m, w1)
      | None \<Rightarrow>
          (Data (rev (sort_key created_at (rls_select (auth_uid env) (\<lambda>r. True) (table w1)))),
           w1))"

text \<open>
  \<open>.select('*').eq('id', x).maybeSingle()\<close>: no row is \<open>null\<close>, one row is the row, more
  rows are the error PGRST116.
\<close>

definition engine_select_by_id ::
  "Env \<Rightarrow> string \<Rightarrow> Store \<Rightarrow> Application option Reply \<times> Store" where
  "engine_select_by_id env x w =
     (let w1 = send (SelectById x) w in
      case engine_error env of
        Some m \<Rightarrow> (Error m, w1)
      | None \<Rightarrow>
          (case rls_select (auth_uid env) (eq_id x) (table w1) of
             [] \<Rightarrow> (Data None, w1)
           | [r] \<Rightarrow> (Data (Some r), w1)
           | _ \<Rightarrow> (Error PGRST116, w1)))"

text \<open>
  \<open>.insert({user_id, ...}).select().single()\<close>: the row gets the generated id and the
  clock in both timestamps; the primary key and the policies decide whether it is stored.
\<close>

definition new_row :: "Env \<Rightarrow> InsertValues \<Rightarrow> Application" where
  "new_row env v =
     \<lparr>app_id = uuid_text (generated_id env), user_id = ins_user_id v,
      company_name = ins_company_name v, position_title = ins_position_title v,
      status = ins_status v, application_date = ins_application_date v,
      notes = ins_notes v, created_at = clock env, updated_at = clock env\<rparr>"

definition engine_insert ::
  "Env \<Rightarrow> InsertValues \<Rightarrow> Store \<Rightarrow> Application Reply \<times> Store" where
  "engine_insert env v w =
     (let w1 = send (InsertRow v) w; r = new_row env v in
      case engine_error env of
        Some m \<Rightarrow> (Error m, w1)
      | None \<Rightarrow>
          if list_ex (eq_id (app_id r)) (table w1) then (Error pkey_violation, w1)
          else
            (case rls_insert (auth_uid env) r (table w1) of
               None \<Rightarrow> (Error rls_violation, w1)
             | Some rows \<Rightarrow> (Data r, w1\<lparr>table := rows\<rparr>)))"

text \<open>
  \<open>.update(patch).eq('id', x).select().single()\<close>. The patch holds the supplied columns
  only; the trigger \<open>update_applications_updated_at\<close> sets \<open>updated_at\<close> to \<open>now()\<close> on
  every updated row. A patch without columns updates nothing and returns no row.
  \<open>.single()\<close> wants exactly one returned row: with none (or several, which are rolled
  back) the reply is the error PGRST116, and \<open>data\<close> is never \<open>null\<close> without an error.
\<close>

definition no_columns :: "UpdateData \<Rightarrow> bool" where
  "no_columns p \<longleftrightarrow> set_company_name p = None \<and> set_position_title p = None
     \<and> set_application_date p = None \<and> set_status p = None \<and> set_notes p = None"

definition apply_patch :: "Env \<Rightarrow> UpdateData \<Rightarrow> Application \<Rightarrow> Application" where
  "apply_patch env p r =
     r\<lparr>company_name := (case set_company_name p of None \<Rightarrow> company_name r | Some v \<Rightarrow> v),
       position_title := (case set_position_title p of None \<Rightarrow> position_title r | Some v \<Rightarrow> v),
       application_date :=
         (case set_application_date p of None \<Rightarrow> application_date r | Some v \<Rightarrow> v),
       status := (case set_status p of None \<Rightarrow> status r | Some v \<Rightarrow> v),
       notes := (case set_notes p of None \<Rightarrow> notes r | Some v \<Rightarrow> v),
       updated_at := clock env\<rparr>"

definition engine_update ::
  "Env \<Rightarrow> string \<Rightarrow> UpdateData \<Rightarrow> Store \<Rightarrow> Application option Reply \<times> Store" where
  "engine_update env x p w =
     (let w1 = send (UpdateById x p) w in
      case engine_error env of
        Some m \<Rightarrow> (Error m, w1)
      | None \<Rightarrow>
          if no_columns p then (Error PGRST116, w1)
          else
            (case rls_update (auth_uid env) (eq_id x) (apply_patch env p) (table w1) of
               None \<Rightarrow> (Error rls_violation, w1)
             | Some ([r], rows) \<Rightarrow> (Data (Some r), w1\<lparr>table := rows\<rparr>)
             | Some (_, rows) \<Rightarrow> (Error PGRST116, w1)))"

text \<open>\<open>.delete().eq('id', x).select()\<close>: the deleted rows are returned.\<close>

definition engine_delete ::
  "Env \<Rightarrow> string \<Rightarrow> Store \<Rightarrow> Application list Reply \<times> Store" where
  "engine_delete env x w =
     (let w1 = send (DeleteById x) w in
      case engine_error env of
        Some m \<Rightarrow> (Error m, w1)
      | None \<Rightarrow>
          (case rls_delete (auth_uid env) (eq_id x) (table w1) of
             (gone, rows) \<Rightarrow> (Data gone, w1\<lparr>table := rows\<rparr>)))"

section \<open>The data access layer (\<open>src/lib/db/applications.ts\<close>)\<close>

text \<open>
  The five functions as in the latest text of the file (the part holding
  \<open>updateApplication\<close> and \<open>deleteApplication\<close>). \<open>DataResult\<close> is the source's union
  \<open>{success: true, data} | {success: false, error}\<close>.
\<close>

datatype 'a DataResult = Success 'a | Failure string

text \<open>
  \<open>const {data: {user}, error: authError} = await supabase.auth.getUser()\<close> followed by
  \<open>if (authError || !user)\<close>: \<open>getUser env\<close> is the user's id when the check passes.
\<close>

definition getUser :: "Env \<Rightarrow> string option" where
  "getUser env = (case session_error env of Some authError \<Rightarrow> None | None \<Rightarrow> session_user env)"

text \<open>\<open>error.message.toLowerCase().includes(word)\<close>\<close>

definition mentions :: "string \<Rightarrow> string \<Rightarrow> bool" where
  "mentions m word = includes_str (toLowerCase m) word"

definition fetch_error_message :: "string \<Rightarrow> string" where
  "fetch_error_message m =
     (if mentions m ''network'' \<or> mentions m ''fetch''
      then ''Network error. Please check your internet connection.''
      else if mentions m ''timeout'' then ''Request timed out. Please try again.''
      else ''Unable to load applications. Please try again.'')"

definition create_error_message :: "string \<Rightarrow> string" where
  "create_error_message m =
     (if mentions m ''network'' \<or> mentions m ''fetch''
      then ''Network error. Please check your internet connection.''
      else if mentions m ''timeout'' then ''Request timed out. Please try again.''
      else if mentions m ''violates'' then ''Invalid data. Please check your input.''
      else ''Unable to create application. Please try again.'')"

definition update_error_message :: "string \<Rightarrow> string" where
  "update_error_message m =
     (if mentions m ''network'' \<or> mentions m ''fetch''
      then ''Network error. Please check your internet connection.''
      else if mentions m ''timeout'' then ''Request timed out. Please try again.''
      else if mentions m ''violates'' then ''Invalid data. Please check your input.''
      else ''Unable to update application. Please try again.'')"

definition delete_error_message :: "string \<Rightarrow> string" where
  "delete_error_message m =
     (if mentions m ''network'' \<or> mentions m ''fetch''
      then ''Network error. Please check your internet connection.''
      else if mentions m ''timeout'' then ''Request timed out. Please try again.''
      else ''Unable to delete application. Please try again.'')"

definition console_error :: "string \<Rightarrow> string \<Rightarrow> Store \<Rightarrow> Store" where
  "console_error label m w = w\<lparr>console := console w @ [label @ '' '' @ m]\<rparr>"

text \<open>\<open>!applicationId || !UUID_RE.test(applicationId)\<close>\<close>

definition invalid_id :: "string \<Rightarrow> bool" where
  "invalid_id a \<longleftrightarrow> a = [] \<or> \<not> regex_test UUID_RE a"

definition getApplications :: "Env \<Rightarrow> Store \<Rightarrow> Application list DataResult \<times> Store" where
  "getApplications env w =
     (case getUser env of
        None \<Rightarrow> (Failure ''User not authenticated'', w)
      | Some user \<Rightarrow>
          (case engine_select_all env w of
             (Error m, w1) \<Rightarrow>
               (Failure (fetch_error_message m),
                console_error ''Error fetching applications:'' m w1)
           | (Data rs, w1) \<Rightarrow> (Success rs, w1)))"

definition getApplicationById ::
  "Env \<Rightarrow> string \<Rightarrow> Store \<Rightarrow> Application option DataResult \<times> Store" where
  "getApplicationById env ident w =
     (case getUser env of
        None \<Rightarrow> (Failure ''User not authenticated'', w)
      | Some user \<Rightarrow>
          (let applicationId = trim ident in
           if invalid_id applicationId then (Failure ''Invalid application ID'', w)
           else
             (case engine_select_by_id env applicationId w of
                (Error m, w1) \<Rightarrow>
                  (Failure (''Failed to fetch application: '' @ m),
                   console_error ''Error fetching application:'' m w1)
              | (Data r, w1) \<Rightarrow> (Success r, w1))))"

text \<open>\<open>data.notes ?? null\<close>\<close>

definition or_null :: "'a option option \<Rightarrow> 'a option" where
  "or_null v = (case v of None \<Rightarrow> None | Some x \<Rightarrow> x)"

definition createApplication ::
  "Env \<Rightarrow> CreateData \<Rightarrow> Store \<Rightarrow> Application DataResult \<times> Store" where
  "createApplication env d w =
     (case getUser env of
        None \<Rightarrow> (Failure ''User not authenticated'', w)
      | Some user \<Rightarrow>
          (case engine_insert env
                  \<lparr>ins_user_id = user,
                   ins_company_name = new_company_name d,
                   ins_position_title = new_position_title d,
                   ins_application_date = new_application_date d,
                   ins_status = new_status d,
                   ins_notes = or_null (new_notes d)\<rparr> w of
             (Error m, w1) \<Rightarrow>
               (Failure (create_error_message m),
                console_error ''Error creating application:'' m w1)
           | (Data r, w1) \<Rightarrow> (Success r, w1)))"

text \<open>
  The object handed to \<open>.update\<close> holds exactly the fields of \<open>data\<close> that are not
  \<open>undefined\<close>, which is \<open>data\<close> itself in this representation.
\<close>

definition updateApplication ::
  "Env \<Rightarrow> string \<Rightarrow> UpdateData \<Rightarrow> Store \<Rightarrow> Application DataResult \<times> Store" where
  "updateApplication env ident d w =
     (case getUser env of
        None \<Rightarrow> (Failure ''User not authenticated'', w)
      | Some user \<Rightarrow>
          (let applicationId = trim ident in
           if invalid_id applicationId then (Failure ''Invalid application ID'', w)
           else
             (case engine_update env applicationId d w of
                (Error m, w1) \<Rightarrow>
                  (Failure (update_error_message m),
                   console_error ''Error updating application:'' m w1)
              | (Data None, w1) \<Rightarrow> (Failure ''Application not found or access denied'', w1)
              | (Data (Some r), w1) \<Rightarrow> (Success r, w1))))"

definition deleteApplication ::
  "Env \<Rightarrow> string \<Rightarrow> Store \<Rightarrow> string DataResult \<times> Store" where
  "deleteApplication env ident w =
     (case getUser env of
        None \<Rightarrow> (Failure ''User not authenticated'', w)
      | Some user \<Rightarrow>
          (let applicationId = trim ident in
           if invalid_id applicationId then (Failure ''Invalid application ID'', w)
           else
             (case engine_delete env applicationId w of
                (Error m, w1) \<Rightarrow>
                  (Failure (delete_error_message m),
                   console_error ''Error deleting application:'' m w1)
              | (Data rs, w1) \<Rightarrow>
                  if rs = []
                  then (Failure (''Application not found or access denied: '' @ applicationId), w1)
                  else (Success applicationId, w1))))"

section \<open>Validation (\<open>createApplicationSchema\<close>, \<open>updateApplicationSchema\<close>)\<close>

text \<open>
  A request body after \<open>request.json()\<close>. The pairs of \<open>JObj\<close> are the object's own
  properties; \<open>map_of\<close> reads a property. The value of a number is never inspected.
\<close>

datatype json =
    JNull
  | JBool bool
  | JNum int
  | JStr string
  | JArr "json list"
  | JObj "(string \<times> json) list"

text \<open>An issue of a \<open>ZodError\<close>: the field it is about and its message.\<close>

type_synonym issue = "string \<times> string"

fun received :: "json \<Rightarrow> string" where
  "received JNull = ''null''"
| "received (JBool b) = ''boolean''"
| "received (JNum n) = ''number''"
| "received (JStr s) = ''string''"
| "received (JArr xs) = ''array''"
| "received (JObj kvs) = ''object''"

definition expected_string :: "string \<Rightarrow> json \<Rightarrow> issue list" where
  "expected_string field j = [(field, ''Expected string, received '' @ received j)]"

text \<open>
  \<open>z.string().min(1, m1).max(200, m2).trim()\<close>: the checks run in the order written, so
  the two length checks see the text as sent and \<open>trim\<close> comes last.
\<close>

definition zod_name :: "string \<Rightarrow> string \<Rightarrow> string \<Rightarrow> json \<Rightarrow> issue list + string" where
  "zod_name field m1 m2 j =
     (case j of
        JStr s \<Rightarrow>
          if length s < 1 then Inl [(field, m1)]
          else if length s > 200 then Inl [(field, m2)]
          else Inr (trim s)
      | _ \<Rightarrow> Inl (expected_string field j))"

text \<open>
  \<open>z.string().regex(/^\d{4}-\d{2}-\d{2}$/, ...).refine(date => !isNaN(new Date(date).getTime()), ...)\<close>
\<close>

definition zod_date :: "Env \<Rightarrow> json \<Rightarrow> issue list + string" where
  "zod_date env j =
     (case j of
        JStr s \<Rightarrow>
          (let issues =
             (if regex_test DATE_RE s then []
              else [(''application_date'', ''Date must be in YYYY-MM-DD format'')])
             @ (if date_parses env s then [] else [(''application_date'', ''Invalid date'')])
           in if issues = [] then Inr s else Inl issues)
      | _ \<Rightarrow> Inl (expected_string ''application_date'' j))"

text \<open>\<open>z.enum(applicationStatuses, {errorMap: () => ({message: 'Invalid status value'})})\<close>\<close>

definition status_of :: "string \<Rightarrow> ApplicationStatus option" where
  "status_of s =
     (if s = ''applied'' then Some Applied
      else if s = ''interviewing'' then Some Interviewing
      else if s = ''offer'' then Some Offer
      else if s = ''rejected'' then Some Rejected
      else if s = ''withdrawn'' then Some Withdrawn
      else None)"

definition invalid_status :: "issue list" where
  "invalid_status = [(''status'', ''Invalid status value'')]"

definition zod_status :: "json \<Rightarrow> issue list + ApplicationStatus" where
  "zod_status j =
     (case j of
        JStr s \<Rightarrow> (case status_of s of Some st \<Rightarrow> Inr st | None \<Rightarrow> Inl invalid_status)
      | _ \<Rightarrow> Inl invalid_status)"

text \<open>
  \<open>z.string().max(2000, ...).optional().transform((val) => val && val.trim() === '' ? null : val)\<close>.
  The condition of the transform is \<open>(val && val.trim() === '')\<close>; a string is truthy
  when it is not empty, and \<open>undefined\<close> is not.
\<close>

definition notes_transform :: "string option \<Rightarrow> string option option" where
  "notes_transform val =
     (case val of
        None \<Rightarrow> None
      | Some s \<Rightarrow> if s \<noteq> [] \<and> trim s = [] then Some None else Some (Some s))"

definition zod_notes :: "json option \<Rightarrow> issue list + string option option" where
  "zod_notes v =
     (case v of
        None \<Rightarrow> Inr (notes_transform None)
      | Some (JStr s) \<Rightarrow>
          if length s > 2000
          then Inl [(''notes'', ''Notes must be less than 2000 characters'')]
          else Inr (notes_transform (Some s))
      | Some j \<Rightarrow> Inl (expected_string ''notes'' j))"

definition required :: "string \<Rightarrow> (json \<Rightarrow> issue list + 'a) \<Rightarrow> json option \<Rightarrow> issue list + 'a" where
  "required field parse v = (case v of None \<Rightarrow> Inl [(field, ''Required'')] | Some j \<Rightarrow> parse j)"

definition optional :: "(json \<Rightarrow> issue list + 'a) \<Rightarrow> json option \<Rightarrow> issue list + 'a option" where
  "optional parse v =
     (case v of
        None \<Rightarrow> Inr None
      | Some j \<Rightarrow> (case parse j of Inl e \<Rightarrow> Inl e | Inr a \<Rightarrow> Inr (Some a)))"

definition issues_of :: "issue list + 'a \<Rightarrow> issue list" where
  "issues_of r = (case r of Inl e \<Rightarrow> e | Inr a \<Rightarrow> [])"

text \<open>
  \<open>z.object({...})\<close> reads the five keys of its shape, in the order written, collects the
  issues of all of them, and drops every other key of the input.
\<close>

definition createApplicationSchema :: "Env \<Rightarrow> json \<Rightarrow> issue list + CreateData" where
  "createApplicationSchema env body =
     (case body of
        JObj kvs \<Rightarrow>
          (let c = required ''company_name''
                     (zod_name ''company_name'' ''Company name is required''
                        ''Company name must be less than 200 characters'')
                     (map_of kvs ''company_name'');
               p = required ''position_title''
                     (zod_name ''position_title'' ''Position title is required''
                        ''Position title must be less than 200 characters'')
                     (map_of kvs ''position_title'');
               d = required ''application_date'' (zod_date env) (map_of kvs ''application_date'');
               s = (case map_of kvs ''status'' of
                      None \<Rightarrow> Inl invalid_status | Some j \<Rightarrow> zod_status j);
               n = zod_notes (map_of kvs ''notes'')
           in case (c, p, d, s, n) of
                (Inr c', Inr p', Inr d', Inr s', Inr n') \<Rightarrow>
                  Inr \<lparr>new_company_name = c', new_position_title = p',
                       new_application_date = d', new_status = s', new_notes = n'\<rparr>
              | _ \<Rightarrow> Inl (issues_of c @ issues_of p @ issues_of d @ issues_of s @ issues_of n))
      | _ \<Rightarrow> Inl [([], ''Expected object, received '' @ received body)])"

definition updateApplicationSchema :: "Env \<Rightarrow> json \<Rightarrow> issue list + UpdateData" where
  "updateApplicationSchema env body =
     (case body of
        JObj kvs \<Rightarrow>
          (let c = optional
                     (zod_name ''company_name'' ''Company name cannot be empty''
                        ''Company name must be less than 200 characters'')
                     (map_of kvs ''company_name'');
               p = optional
                     (zod_name ''position_title'' ''Position title cannot be empty''
                        ''Position title must be less than 200 characters'')
                     (map_of kvs ''position_title'');
               d = optional (zod_date env) (map_of kvs ''application_date'');
               s = optional zod_status (map_of kvs ''status'');
               n = zod_notes (map_of kvs ''notes'')
           in case (c, p, d, s, n) of
                (Inr c', Inr p', Inr d', Inr s', Inr n') \<Rightarrow>
                  Inr \<lparr>set_company_name = c', set_position_title = p',
                       set_application_date = d', set_status = s', set_notes = n'\<rparr>
              | _ \<Rightarrow> Inl (issues_of c @ issues_of p @ issues_of d @ issues_of s @ issues_of n))
      | _ \<Rightarrow> Inl [([], ''Expected object, received '' @ received body)])"

section \<open>The entry points\<close>

datatype Body =
    ErrorBody string
  | ValidationBody "issue list"
  | DataBody Application
  | DeletedBody string

datatype Response = Response (http_status: nat) (http_body: Body)

text \<open>
  \<open>Object.keys(rawBody).length\<close>: \<open>None\<close> is the \<open>TypeError\<close> for \<open>null\<close>; a string
  and an array have one key per element, a number and a boolean none.
\<close>

fun keys_length :: "json \<Rightarrow> nat option" where
  "keys_length JNull = None"
| "keys_length (JBool b) = Some 0"
| "keys_length (JNum n) = Some 0"
| "keys_length (JStr s) = Some (length s)"
| "keys_length (JArr xs) = Some (length xs)"
| "keys_length (JObj kvs) = Some (length kvs)"

definition null_to_object :: string where
  "null_to_object = ''TypeError: Cannot convert undefined or null to object''"

text \<open>
  \<open>PATCH /api/applications/[id]\<close> (\<open>src/app/api/applications/[id]/route.ts\<close>). The body
  is \<open>None\<close> when \<open>request.json()\<close> throws its \<open>SyntaxError\<close>.
\<close>

definition PATCH :: "Env \<Rightarrow> string \<Rightarrow> json option \<Rightarrow> Store \<Rightarrow> Response \<times> Store" where
  "PATCH env ident request w =
     (case getUser env of
        None \<Rightarrow> (Response 401 (ErrorBody ''Unauthorized''), w)
      | Some user \<Rightarrow>
          if ident = [] then (Response 400 (ErrorBody ''Application ID is required''), w)
          else
            (case request of
               None \<Rightarrow> (Response 400 (ErrorBody ''Invalid JSON''), w)
             | Some rawBody \<Rightarrow>
                 (case keys_length rawBody of
                    None \<Rightarrow>
                      (Response 500 (ErrorBody ''Internal server error''),
                       console_error ''Unexpected error in PATCH /api/applications/[id]:''
                         null_to_object w)
                  | Some n \<Rightarrow>
                      if n = 0 then (Response 400 (ErrorBody ''No fields to update''), w)
                      else
                        (case updateApplicationSchema env rawBody of
                           Inl issues \<Rightarrow> (Response 400 (ValidationBody issues), w)
                         | Inr validatedData \<Rightarrow>
                             (case updateApplication env ident validatedData w of
                                (Failure e, w1) \<Rightarrow>
                                  if includes_str e ''not found'' \<or> includes_str e ''access denied''
                                  then (Response 404 (ErrorBody ''Application not found''), w1)
                                  else (Response 500 (ErrorBody e), w1)
                              | (Success r, w1) \<Rightarrow> (Response 200 (DataBody r), w1))))))"

text \<open>\<open>DELETE /api/applications/[id]\<close>, same file.\<close>

definition DELETE :: "Env \<Rightarrow> string \<Rightarrow> Store \<Rightarrow> Response \<times> Store" where
  "DELETE env ident w =
     (case getUser env of
        None \<Rightarrow> (Response 401 (ErrorBody ''Unauthorized''), w)
      | Some user \<Rightarrow>
          if ident = [] then (Response 400 (ErrorBody ''Application ID is required''), w)
          else
            (case deleteApplication env ident w of
               (Failure e, w1) \<Rightarrow>
                 if includes_str e ''not found'' \<or> includes_str e ''access denied''
                 then (Response 404 (ErrorBody ''Application not found''), w1)
                 else (Response 500 (ErrorBody e), w1)
             | (Success i, w1) \<Rightarrow> (Response 200 (DeletedBody i), w1)))"

text \<open>\<open>POST /api/applications\<close> (\<open>src/app/api/applications/route.ts\<close>).\<close>

definition POST :: "Env \<Rightarrow> json option \<Rightarrow> Store \<Rightarrow> Response \<times> Store" where
  "POST env request w =
     (case getUser env of
        None \<Rightarrow> (Response 401 (ErrorBody ''Unauthorized''), w)
      | Some user \<Rightarrow>
          (case request of
             None \<Rightarrow> (Response 400 (ErrorBody ''Invalid JSON''), w)
           | Some body \<Rightarrow>
               (case createApplicationSchema env body of
                  Inl issues \<Rightarrow> (Response 400 (ValidationBody issues), w)
                | Inr validatedData \<Rightarrow>
                    (case createApplication env
                            (validatedData\<lparr>new_notes := Some (or_null (new_notes validatedData))\<rparr>)
                            w of
                       (Failure e, w1) \<Rightarrow> (Response 500 (ErrorBody e), w1)
                     | (Success r, w1) \<Rightarrow> (Response 201 (DataBody r), w1)))))"

text \<open>
  \<open>createApplicationAction\<close> (\<open>src/app/(auth)/actions.ts\<close>). \<open>formData.get\<close> yields a
  string, a file or \<open>null\<close> for each of the five names; on success the action redirects.
\<close>

datatype FormValue = Missing | Text string | File

record FormData =
  fd_company_name :: FormValue
  fd_position_title :: FormValue
  fd_application_date :: FormValue
  fd_status :: FormValue
  fd_notes :: FormValue

datatype ActionResult = ActionFailure string | Redirect string

fun raw_value :: "FormValue \<Rightarrow> json" where
  "raw_value Missing = JNull"
| "raw_value (Text s) = JStr s"
| "raw_value File = JObj []"

definition rawData :: "FormData \<Rightarrow> json" where
  "rawData fd = JObj [(''company_name'', raw_value (fd_company_name fd)),
                      (''position_title'', raw_value (fd_position_title fd)),
                      (''application_date'', raw_value (fd_application_date fd)),
                      (''status'', raw_value (fd_status fd)),
                      (''notes'', raw_value (fd_notes fd))]"

text \<open>\<open>firstError?.message || 'Validation failed'\<close>\<close>

definition first_message :: "issue list \<Rightarrow> string" where
  "first_message issues =
     (case issues of
        [] \<Rightarrow> ''Validation failed''
      | (field, m) # rest \<Rightarrow> if m = [] then ''Validation failed'' else m)"

definition createApplicationAction :: "Env \<Rightarrow> FormData \<Rightarrow> Store \<Rightarrow> ActionResult \<times> Store" where
  "createApplicationAction env formData w =
     (case getUser env of
        None \<Rightarrow> (ActionFailure ''User not authenticated'', w)
      | Some user \<Rightarrow>
          (case createApplicationSchema env (rawData formData) of
             Inl issues \<Rightarrow> (ActionFailure (first_message issues), w)
           | Inr validation_data \<Rightarrow>
               (case createApplication env validation_data w of
                  (Failure e, w1) \<Rightarrow> (ActionFailure e, w1)
                | (Success r, w1) \<Rightarrow> (Redirect ''/dashboard'', w1))))"

section \<open>A concrete scenario\<close>

text \<open>
  Two users, one stored application of the first one, and a session for each user in which
  the storage engine works. The theorems below are instantiated here.
\<close>

definition alice :: string where
  "alice = ''11111111-1111-4111-8111-111111111111''"

definition bob :: string where
  "bob = ''22222222-2222-4222-8222-222222222222''"

definition acme_id :: string where
  "acme_id = ''aaaaaaaa-aaaa-4aaa-8aaa-aaaaaaaaaaaa''"

definition fresh_id :: string where
  "fresh_id = ''bbbbbbbb-bbbb-4bbb-8bbb-bbbbbbbbbbbb''"

definition session :: "string \<Rightarrow> Env" where
  "session u = \<lparr>session_user = Some u, session_error = None, engine_error = None,
                generated_id = fresh_id, clock = 9, date_parses = (\<lambda>s. True)\<rparr>"

definition no_session :: Env where
  "no_session = \<lparr>session_user = None, session_error = Some ''Auth session missing!'',
                 engine_error = None, generated_id = fresh_id, clock = 9,
                 date_parses = (\<lambda>s. True)\<rparr>"

definition acme_row :: Application where
  "acme_row = \<lparr>app_id = acme_id, user_id = alice, company_name = ''Acme'',
               position_title = ''Engineer'', status = Applied,
               application_date = ''2026-01-10'', notes = None,
               created_at = 7, updated_at = 7\<rparr>"

definition empty_store :: Store where
  "empty_store = \<lparr>table = [], issued = [], console = []\<rparr>"

definition alice_store :: Store where
  "alice_store = \<lparr>table = [acme_row], issued = [], console = []\<rparr>"

definition only_status :: "ApplicationStatus \<Rightarrow> UpdateData" where
  "only_status st = \<lparr>set_company_name = None, set_position_title = None,
                     set_application_date = None, set_status = Some st, set_notes = None\<rparr>"

definition bob_row :: Application where
  "bob_row = \<lparr>app_id = fresh_id, user_id = bob, company_name = ''Initech'',
              position_title = ''Analyst'', status = Interviewing,
              application_date = ''2026-02-01'', notes = Some ''second round'',
              created_at = 8, updated_at = 8\<rparr>"


definition acme_fields :: "json \<Rightarrow> (string \<times> json) list" where
  "acme_fields n = [(''company_name'', JStr ''Acme''), (''position_title'', JStr ''Engineer''),
     (''application_date'', JStr ''2026-01-10''), (''status'', JStr ''applied''), (''notes'', n)]"

definition acme_data :: CreateData where
  "acme_data = \<lparr>new_company_name = ''Acme'', new_position_title = ''Engineer'',
                new_application_date = ''2026-01-10'', new_status = Applied,
                new_notes = Some (Some ''first round'')\<rparr>"

definition created_row :: Application where
  "created_row = \<lparr>app_id = fresh_id, user_id = alice, company_name = ''Acme'',
                  position_title = ''Engineer'', status = Applied,
                  application_date = ''2026-01-10'', notes = Some ''first round'',
                  created_at = 9, updated_at = 9\<rparr>"

definition outage :: Env where
  "outage = (session alice)\<lparr>engine_error := Some ''connection to server at 10.0.0.5 refused''\<rparr>"

text \<open>The keys of the two schemas' shape.\<close>

definition schema_keys :: "string list" where
  "schema_keys = [''company_name'', ''position_title'', ''application_date'', ''status'',
     ''notes'']"

text \<open>The store with every row of another owner taken away.\<close>

definition own_rows :: "string \<Rightarrow> Store \<Rightarrow> Store" where
  "own_rows u w = w\<lparr>table := filter (\<lambda>r. user_id r = u) (table w)\<rparr>"

section \<open>Properties\<close>

subsection \<open>Trimming\<close>

lemma dropWhile_fixed: "xs = [] \<or> \<not> P (hd xs) \<Longrightarrow> dropWhile P xs = xs"
  by (cases xs) auto

lemma trimmed_end_keeps_head:
  assumes "xs = [] \<or> \<not> P (hd xs)"
  shows "rev (dropWhile P (rev xs)) = [] \<or> \<not> P (hd (rev (dropWhile P (rev xs))))"
proof -
  let ?ys = "rev (dropWhile P (rev xs))"
  have parts: "xs = ?ys @ rev (takeWhile P (rev xs))"
    by (metis rev_append rev_rev_ident takeWhile_dropWhile_id)
  show ?thesis
  proof (cases "?ys = []")
    case True
    then show ?thesis by simp
  next
    case False
    then have "hd xs = hd ?ys"
      using parts by (metis hd_append2)
    moreover have "xs \<noteq> []"
      using False parts by auto
    ultimately show ?thesis
      using assms by auto
  qed
qed

lemma trim_idem: "trim (trim s) = trim s"
proof -
  let ?t = "dropWhile is_white_space s"
  have "?t = [] \<or> \<not> is_white_space (hd ?t)"
    by (metis hd_dropWhile)
  then have "trim s = [] \<or> \<not> is_white_space (hd (trim s))"
    unfolding trim_def by (rule trimmed_end_keeps_head)
  then have at_front: "dropWhile is_white_space (trim s) = trim s"
    by (rule dropWhile_fixed)
  have at_end: "dropWhile is_white_space (rev (trim s)) = rev (trim s)"
    by (simp add: trim_def)
  show ?thesis
    using at_front at_end by (simp add: trim_def)
qed

lemma getUser_session: "getUser (session u) = Some u"
  by (simp add: getUser_def session_def)

lemma auth_uid_getUser: "auth_uid env = getUser env"
  by (simp add: auth_uid_def getUser_def)

subsection \<open>No identity, no storage access\<close>

lemma getUser_none:
  "session_error env \<noteq> None \<or> session_user env = None \<Longrightarrow> getUser env = None"
  by (auto simp: getUser_def split: option.splits)

text \<open>
  Claim C4. When \<open>getUser\<close> answers with an error or without a user, each of the five
  operations returns \<open>{success: false, error: 'User not authenticated'}\<close> and leaves the
  store as it was: no statement was sent to the engine, no row changed, nothing logged.
\<close>

theorem unauthenticated_is_uniform:
  assumes "session_error env \<noteq> None \<or> session_user env = None"
  shows "getApplications env w = (Failure ''User not authenticated'', w)
    \<and> getApplicationById env i w = (Failure ''User not authenticated'', w)
    \<and> createApplication env d w = (Failure ''User not authenticated'', w)
    \<and> updateApplication env i p w = (Failure ''User not authenticated'', w)
    \<and> deleteApplication env i w = (Failure ''User not authenticated'', w)"
  using getUser_none [OF assms]
  by (simp add: getApplications_def getApplicationById_def createApplication_def
      updateApplication_def deleteApplication_def)

theorem unauthenticated_is_uniform_witness:
  "getApplications no_session alice_store = (Failure ''User not authenticated'', alice_store)
    \<and> getApplicationById no_session acme_id alice_store
        = (Failure ''User not authenticated'', alice_store)
    \<and> createApplication no_session
        \<lparr>new_company_name = ''Initech'', new_position_title = ''Analyst'',
         new_application_date = ''2026-02-01'', new_status = Applied, new_notes = None\<rparr>
        alice_store = (Failure ''User not authenticated'', alice_store)
    \<and> updateApplication no_session acme_id (only_status Offer) alice_store
        = (Failure ''User not authenticated'', alice_store)
    \<and> deleteApplication no_session acme_id alice_store
        = (Failure ''User not authenticated'', alice_store)"
proof -
  have gone: "session_error no_session \<noteq> None \<or> session_user no_session = None"
    by (simp add: no_session_def)
  show ?thesis
    by (rule unauthenticated_is_uniform [OF gone])
qed

subsection \<open>An update without fields\<close>

text \<open>
  Claim C8. An authenticated \<open>PATCH /api/applications/[id]\<close> whose body has no keys is
  answered with status 400 and \<open>'No fields to update'\<close>; the schema is not consulted (the
  answer is the same for a body that the schema would refuse) and the store is unchanged,
  so no statement reached the engine. The router calls the handler with a non-empty
  \<open>id\<close> segment.
\<close>

theorem patch_without_fields:
  assumes "getUser env = Some u" and "i \<noteq> []" and "keys_length body = Some 0"
  shows "PATCH env i (Some body) w = (Response 400 (ErrorBody ''No fields to update''), w)"
  using assms by (simp add: PATCH_def)

theorem patch_without_fields_witness:
  "PATCH (session alice) acme_id (Some (JObj [])) alice_store
     = (Response 400 (ErrorBody ''No fields to update''), alice_store)"
proof -
  have "acme_id \<noteq> []"
    by (simp add: acme_id_def)
  then show ?thesis
    using patch_without_fields [OF getUser_session, of acme_id "JObj []" alice alice_store]
    by simp
qed

subsection \<open>Malformed identifiers\<close>

text \<open>
  Claim C10. For an authenticated caller, an \<open>id\<close> whose trimmed text does not match
  \<open>UUID_RE\<close> makes \<open>getApplicationById\<close>, \<open>updateApplication\<close> and \<open>deleteApplication\<close>
  return \<open>'Invalid application ID'\<close> with the store unchanged (no statement sent), and
  every \<open>id\<close> behaves exactly like its trimmed form.
\<close>

theorem malformed_id_is_rejected:
  assumes "getUser env = Some u"
  shows "(\<not> regex_test UUID_RE (trim i) \<longrightarrow>
            getApplicationById env i w = (Failure ''Invalid application ID'', w)
          \<and> updateApplication env i p w = (Failure ''Invalid application ID'', w)
          \<and> deleteApplication env i w = (Failure ''Invalid application ID'', w))
    \<and> getApplicationById env i w = getApplicationById env (trim i) w
    \<and> updateApplication env i p w = updateApplication env (trim i) p w
    \<and> deleteApplication env i w = deleteApplication env (trim i) w"
  using assms
  by (simp add: getApplicationById_def updateApplication_def deleteApplication_def
      invalid_id_def trim_idem)

theorem malformed_id_is_rejected_witness:
  "\<not> regex_test UUID_RE (trim '' 42 '')
    \<and> getApplicationById (session alice) '' 42 '' alice_store
        = (Failure ''Invalid application ID'', alice_store)
    \<and> updateApplication (session alice) '' 42 '' (only_status Offer) alice_store
        = (Failure ''Invalid application ID'', alice_store)
    \<and> deleteApplication (session alice) '' 42 '' alice_store
        = (Failure ''Invalid application ID'', alice_store)
    \<and> getApplicationById (session alice) ('' '' @ acme_id @ '' '') alice_store
        = getApplicationById (session alice) (trim ('' '' @ acme_id @ '' '')) alice_store"
proof -
  have bad: "\<not> regex_test UUID_RE (trim '' 42 '')"
    by code_simp
  show ?thesis
    using bad
      malformed_id_is_rejected [OF getUser_session, of "'' 42 ''" alice alice_store "only_status Offer"]
      malformed_id_is_rejected [OF getUser_session, of "'' '' @ acme_id @ '' ''" alice alice_store
        "only_status Offer"]
    by simp
qed

subsection \<open>The owner of a created record\<close>

lemma createApplication_success:
  assumes "getUser env = Some u" and "createApplication env d w = (Success r, w')"
  shows "user_id r = u \<and> table w' = table w @ [r]"
  using assms
  by (auto simp: createApplication_def engine_insert_def rls_insert_def Let_def send_def
      new_row_def console_error_def split: option.splits if_splits)

lemma createApplication_table:
  assumes "getUser env = Some u"
  shows "table (snd (createApplication env d w)) = table w
     \<or> (\<exists>r. table (snd (createApplication env d w)) = table w @ [r] \<and> user_id r = u)"
  using assms
  by (auto simp: createApplication_def engine_insert_def rls_insert_def Let_def send_def
      new_row_def console_error_def split: option.splits if_splits)

lemma POST_table:
  assumes "getUser env = Some u"
  shows "table (snd (POST env request w)) = table w
     \<or> (\<exists>r. table (snd (POST env request w)) = table w @ [r] \<and> user_id r = u)"
proof (cases request)
  case None
  then show ?thesis
    using assms by (simp add: POST_def)
next
  case (Some body)
  show ?thesis
  proof (cases "createApplicationSchema env body")
    case (Inl issues)
    then show ?thesis
      using assms Some by (simp add: POST_def)
  next
    case (Inr v)
    let ?d = "v\<lparr>new_notes := Some (or_null (new_notes v))\<rparr>"
    have "snd (POST env request w) = snd (createApplication env ?d w)"
      using assms Some Inr by (simp add: POST_def split: prod.splits DataResult.splits)
    then show ?thesis
      using createApplication_table [OF assms, of ?d w] by simp
  qed
qed

lemma createApplicationAction_table:
  assumes "getUser env = Some u"
  shows "table (snd (createApplicationAction env fd w)) = table w
     \<or> (\<exists>r. table (snd (createApplicationAction env fd w)) = table w @ [r] \<and> user_id r = u)"
proof (cases "createApplicationSchema env (rawData fd)")
  case (Inl issues)
  then show ?thesis
    using assms by (simp add: createApplicationAction_def)
next
  case (Inr v)
  have "snd (createApplicationAction env fd w) = snd (createApplication env v w)"
    using assms Inr
    by (simp add: createApplicationAction_def split: prod.splits DataResult.splits)
  then show ?thesis
    using createApplication_table [OF assms, of v w] by simp
qed

lemma create_schema_reads_shape:
  assumes "\<forall>k \<in> set schema_keys. map_of kvs k = map_of kvs' k"
  shows "createApplicationSchema env (JObj kvs) = createApplicationSchema env (JObj kvs')"
  using assms by (simp add: createApplicationSchema_def schema_keys_def)


text \<open>
  Claim C1. For an authenticated caller, a record that \<open>createApplication\<close> persists has
  the session's user as \<open>user_id\<close> and is the one row added to the table; \<open>POST
  /api/applications\<close> and \<open>createApplicationAction\<close> add nothing or one row of that
  owner, whatever the payload is; and the input has no owner field: two bodies that agree
  on the five keys of the schema (so also a body with and without a \<open>user_id\<close>, \<open>owner\<close>
  or \<open>id\<close> key) get the same response and leave the same store.
\<close>

theorem created_record_belongs_to_session_user:
  assumes "getUser env = Some u"
  shows "(createApplication env d w = (Success r, w') \<longrightarrow>
            user_id r = u \<and> table w' = table w @ [r])
    \<and> (table (snd (POST env request w)) = table w
        \<or> (\<exists>r. table (snd (POST env request w)) = table w @ [r] \<and> user_id r = u))
    \<and> (table (snd (createApplicationAction env fd w)) = table w
        \<or> (\<exists>r. table (snd (createApplicationAction env fd w)) = table w @ [r]
                \<and> user_id r = u))
    \<and> ((\<forall>k \<in> set schema_keys. map_of kvs k = map_of kvs' k) \<longrightarrow>
          POST env (Some (JObj kvs)) w = POST env (Some (JObj kvs')) w)"
proof -
  have "createApplication env d w = (Success r, w') \<longrightarrow>
          user_id r = u \<and> table w' = table w @ [r]"
    using createApplication_success [OF assms] by blast
  moreover have "(\<forall>k \<in> set schema_keys. map_of kvs k = map_of kvs' k) \<longrightarrow>
      POST env (Some (JObj kvs)) w = POST env (Some (JObj kvs')) w"
  proof
    assume "\<forall>k \<in> set schema_keys. map_of kvs k = map_of kvs' k"
    then have "createApplicationSchema env (JObj kvs) = createApplicationSchema env (JObj kvs')"
      by (rule create_schema_reads_shape)
    then show "POST env (Some (JObj kvs)) w = POST env (Some (JObj kvs')) w"
      by (simp add: POST_def split: option.splits)
  qed
  ultimately show ?thesis
    using POST_table [OF assms] createApplicationAction_table [OF assms] by blast
qed

theorem created_record_belongs_to_session_user_witness:
  "fst (createApplication (session alice) acme_data empty_store) = Success created_row
    \<and> user_id created_row = alice
    \<and> table (snd (createApplication (session alice) acme_data empty_store)) = [created_row]
    \<and> POST (session alice)
         (Some (JObj ((''user_id'', JStr bob) # acme_fields (JStr ''first round'')))) empty_store
       = POST (session alice) (Some (JObj (acme_fields (JStr ''first round'')))) empty_store"
proof -
  let ?out = "createApplication (session alice) acme_data empty_store"
  have "fst ?out = Success created_row"
    by code_simp
  then have made: "?out = (Success created_row, snd ?out)"
    by (cases ?out) simp
  have same: "\<forall>k \<in> set schema_keys.
      map_of ((''user_id'', JStr bob) # acme_fields (JStr ''first round'')) k
        = map_of (acme_fields (JStr ''first round'')) k"
    by (simp add: schema_keys_def)
  note at_alice =
    created_record_belongs_to_session_user [OF getUser_session,
      of alice acme_data empty_store created_row "snd ?out" None
         "\<lparr>fd_company_name = Missing, fd_position_title = Missing,
           fd_application_date = Missing, fd_status = Missing, fd_notes = Missing\<rparr>"
         "(''user_id'', JStr bob) # acme_fields (JStr ''first round'')"
         "acme_fields (JStr ''first round'')"]
  have owner: "user_id created_row = alice
      \<and> table (snd ?out) = table empty_store @ [created_row]"
    using at_alice made by blast
  have dropped: "POST (session alice)
         (Some (JObj ((''user_id'', JStr bob) # acme_fields (JStr ''first round'')))) empty_store
       = POST (session alice) (Some (JObj (acme_fields (JStr ''first round'')))) empty_store"
    using at_alice same by blast
  show ?thesis
    using \<open>fst ?out = Success created_row\<close> owner dropped by (simp add: empty_store_def)
qed

subsection \<open>The row level policies\<close>

lemma delete_target_owned: "delete_target (Some u) cond = (\<lambda>r. user_id r = u \<and> cond r)"
  by (auto simp: fun_eq_iff delete_target_def select_using_def delete_using_def)

lemma update_target_owned: "update_target (Some u) cond = (\<lambda>r. user_id r = u \<and> cond r)"
  by (auto simp: fun_eq_iff update_target_def select_using_def update_using_def)

lemma update_check_owned: "update_check (Some u) r \<longleftrightarrow> user_id r = u"
  by (auto simp: update_check_def)

lemma rls_select_owned:
  "set (rls_select (Some u) cond rows) = {r \<in> set rows. user_id r = u \<and> cond r}"
  by (auto simp: rls_select_def select_using_def)

lemma rls_insert_owned:
  "rls_insert (Some u) r rows = (if user_id r = u then Some (rows @ [r]) else None)"
  by (auto simp: rls_insert_def insert_check_def select_using_def)

lemma rls_delete_owned:
  "rls_delete (Some u) cond rows
     = (filter (\<lambda>r. user_id r = u \<and> cond r) rows,
        filter (\<lambda>r. \<not> (user_id r = u \<and> cond r)) rows)"
  by (simp add: rls_delete_def delete_target_owned)

lemma rls_update_owned:
  "rls_update (Some u) cond f rows
     = (if list_all (\<lambda>t. user_id (f t) = u) (filter (\<lambda>r. user_id r = u \<and> cond r) rows)
        then Some (map f (filter (\<lambda>r. user_id r = u \<and> cond r) rows),
                   map (\<lambda>r. if user_id r = u \<and> cond r then f r else r) rows)
        else None)"
  by (simp add: rls_update_def update_target_owned update_check_owned Let_def)

lemma others_survive_delete:
  "filter (\<lambda>r. user_id r \<noteq> u) (snd (rls_delete (Some u) cond rows))
     = filter (\<lambda>r. user_id r \<noteq> u) rows"
  by (auto simp: rls_delete_owned intro: filter_cong)

lemma others_survive_update:
  assumes "rls_update (Some u) cond f rows = Some (ret, rows')"
  shows "filter (\<lambda>r. user_id r \<noteq> u) rows' = filter (\<lambda>r. user_id r \<noteq> u) rows"
proof -
  have kept: "list_all (\<lambda>t. user_id (f t) = u) (filter (\<lambda>r. user_id r = u \<and> cond r) rows)"
    and rows': "rows' = map (\<lambda>r. if user_id r = u \<and> cond r then f r else r) rows"
    using assms by (auto simp: rls_update_owned split: if_splits)
  from kept show ?thesis
    unfolding rows' by (induction rows) auto
qed

text \<open>
  Claim C3. Each of the policies (select, insert, update in both its \<open>USING\<close> and its
  \<open>WITH CHECK\<close>, delete) holds of a row exactly when the row's \<open>user_id\<close> is the
  caller's verified identity, and never for a caller without one. So, for every table,
  every caller \<open>u\<close> and every filter \<open>cond\<close> a statement supplies: the rows read are
  the caller's own rows that pass the filter (all of its rows for the filter that is
  always true); a row is inserted exactly when the caller owns it; a delete removes, and
  an update rewrites, the caller's own rows that pass the filter and nothing else; and
  the rows of other owners are the same after any delete or update.
\<close>

theorem policies_admit_exactly_the_owner:
  "(select_using (Some u) r \<longleftrightarrow> user_id r = u)
    \<and> (insert_check (Some u) r \<longleftrightarrow> user_id r = u)
    \<and> (update_using (Some u) r \<longleftrightarrow> user_id r = u)
    \<and> (update_check (Some u) r \<longleftrightarrow> user_id r = u)
    \<and> (delete_using (Some u) r \<longleftrightarrow> user_id r = u)
    \<and> \<not> select_using None r \<and> \<not> insert_check None r \<and> \<not> update_using None r
    \<and> \<not> update_check None r \<and> \<not> delete_using None r
    \<and> set (rls_select (Some u) cond rows) = {r \<in> set rows. user_id r = u \<and> cond r}
    \<and> set (rls_select (Some u) (\<lambda>r. True) rows) = {r \<in> set rows. user_id r = u}
    \<and> rls_insert (Some u) r rows = (if user_id r = u then Some (rows @ [r]) else None)
    \<and> rls_delete (Some u) cond rows
        = (filter (\<lambda>r. user_id r = u \<and> cond r) rows,
           filter (\<lambda>r. \<not> (user_id r = u \<and> cond r)) rows)
    \<and> rls_update (Some u) cond f rows
        = (if list_all (\<lambda>t. user_id (f t) = u) (filter (\<lambda>r. user_id r = u \<and> cond r) rows)
           then Some (map f (filter (\<lambda>r. user_id r = u \<and> cond r) rows),
                      map (\<lambda>r. if user_id r = u \<and> cond r then f r else r) rows)
           else None)
    \<and> filter (\<lambda>r. user_id r \<noteq> u) (snd (rls_delete (Some u) cond rows))
        = filter (\<lambda>r. user_id r \<noteq> u) rows
    \<and> (rls_update (Some u) cond f rows = Some (ret, rows') \<longrightarrow>
          filter (\<lambda>r. user_id r \<noteq> u) rows' = filter (\<lambda>r. user_id r \<noteq> u) rows)"
proof -
  have policies: "(select_using (Some u) r \<longleftrightarrow> user_id r = u)
      \<and> (insert_check (Some u) r \<longleftrightarrow> user_id r = u)
      \<and> (update_using (Some u) r \<longleftrightarrow> user_id r = u)
      \<and> (update_check (Some u) r \<longleftrightarrow> user_id r = u)
      \<and> (delete_using (Some u) r \<longleftrightarrow> user_id r = u)
      \<and> \<not> select_using None r \<and> \<not> insert_check None r \<and> \<not> update_using None r
      \<and> \<not> update_check None r \<and> \<not> delete_using None r"
    by (auto simp: select_using_def insert_check_def update_using_def update_check_def
        delete_using_def)
  have reads: "set (rls_select (Some u) (\<lambda>r. True) rows) = {r \<in> set rows. user_id r = u}"
    by (simp add: rls_select_owned)
  have frame: "rls_update (Some u) cond f rows = Some (ret, rows') \<longrightarrow>
      filter (\<lambda>r. user_id r \<noteq> u) rows' = filter (\<lambda>r. user_id r \<noteq> u) rows"
    using others_survive_update [of u cond f rows ret rows'] by blast
  show ?thesis
    using policies reads frame rls_select_owned [of u cond rows] rls_insert_owned [of u r rows]
      rls_delete_owned [of u cond rows] rls_update_owned [of u cond f rows]
      others_survive_delete [of u cond rows]
    by blast
qed

theorem policies_admit_exactly_the_owner_witness:
  "rls_update (Some bob) (\<lambda>r. True) (\<lambda>r. r\<lparr>status := Rejected\<rparr>) [acme_row, bob_row]
      = Some ([bob_row\<lparr>status := Rejected\<rparr>], [acme_row, bob_row\<lparr>status := Rejected\<rparr>])
    \<and> filter (\<lambda>r. user_id r \<noteq> bob) [acme_row, bob_row\<lparr>status := Rejected\<rparr>]
        = filter (\<lambda>r. user_id r \<noteq> bob) [acme_row, bob_row]
    \<and> set (rls_select (Some bob) (\<lambda>r. True) [acme_row, bob_row])
        = {r \<in> set [acme_row, bob_row]. user_id r = bob}"
proof -
  have ran: "rls_update (Some bob) (\<lambda>r. True) (\<lambda>r. r\<lparr>status := Rejected\<rparr>) [acme_row, bob_row]
      = Some ([bob_row\<lparr>status := Rejected\<rparr>], [acme_row, bob_row\<lparr>status := Rejected\<rparr>])"
    by code_simp
  note at_bob =
    policies_admit_exactly_the_owner [of bob acme_row "\<lambda>r. True" "[acme_row, bob_row]"
      "\<lambda>r. r\<lparr>status := Rejected\<rparr>" "[bob_row\<lparr>status := Rejected\<rparr>]"
      "[acme_row, bob_row\<lparr>status := Rejected\<rparr>]"]
  show ?thesis
    using ran at_bob by blast
qed

subsection \<open>Updating a record that is not the caller's\<close>

lemma update_message_PGRST116:
  "update_error_message PGRST116 = ''Unable to update application. Please try again.''"
  by code_simp

lemma unable_is_not_not_found:
  "\<not> includes_str ''Unable to update application. Please try again.'' ''not found''
    \<and> \<not> includes_str ''Unable to update application. Please try again.'' ''access denied''"
  by code_simp

lemma UUID_RE_not_empty: "\<not> regex_test UUID_RE []"
  by code_simp

lemma matching_id_not_empty:
  assumes "regex_test UUID_RE (trim i)"
  shows "trim i \<noteq> [] \<and> i \<noteq> []"
proof -
  have "trim i \<noteq> []"
    using assms UUID_RE_not_empty by auto
  moreover have "trim [] = []"
    by (simp add: trim_def)
  ultimately show ?thesis
    by auto
qed

lemma engine_update_no_row:
  assumes "getUser env = Some u" and "engine_error env = None"
    and "\<forall>r \<in> set (table w). user_id r = u \<longrightarrow> \<not> eq_id x r"
  shows "engine_update env x p w = (Error PGRST116, send (UpdateById x p) w)"
proof -
  have "filter (\<lambda>r. user_id r = u \<and> eq_id x r) (table w) = []"
    using assms(3) by (auto simp: filter_empty_conv)
  then show ?thesis
    using assms(1,2)
    by (simp add: engine_update_def auth_uid_getUser rls_update_owned Let_def send_def)
qed

lemma update_message_newer_PGRST116:
  "update_error_message ''Cannot coerce the result to a single JSON object''
     = ''Unable to update application. Please try again.''"
  by code_simp

lemma engine_update_never_null: "fst (engine_update env x p w) \<noteq> Data None"
  by (simp add: engine_update_def Let_def split: option.splits prod.splits list.splits)

lemma update_messages_are_not_not_found:
  "\<not> includes_str (update_error_message m) ''not found''
    \<and> \<not> includes_str (update_error_message m) ''access denied''"
proof -
  have "\<not> includes_str ''Network error. Please check your internet connection.'' ''not found''
    \<and> \<not> includes_str ''Network error. Please check your internet connection.'' ''access denied''
    \<and> \<not> includes_str ''Request timed out. Please try again.'' ''not found''
    \<and> \<not> includes_str ''Request timed out. Please try again.'' ''access denied''
    \<and> \<not> includes_str ''Invalid data. Please check your input.'' ''not found''
    \<and> \<not> includes_str ''Invalid data. Please check your input.'' ''access denied''"
    by code_simp
  then show ?thesis
    using unable_is_not_not_found by (simp add: update_error_message_def)
qed

lemma other_failures_are_not_not_found:
  "\<not> includes_str ''User not authenticated'' ''not found''
    \<and> \<not> includes_str ''User not authenticated'' ''access denied''
    \<and> \<not> includes_str ''Invalid application ID'' ''not found''
    \<and> \<not> includes_str ''Invalid application ID'' ''access denied''"
  by code_simp

lemma updateApplication_never_not_found:
  "\<forall>e. fst (updateApplication env i p w) = Failure e \<longrightarrow>
     \<not> includes_str e ''not found'' \<and> \<not> includes_str e ''access denied''"
proof (cases "engine_update env (trim i) p w")
  case (Pair reply w1)
  have "reply \<noteq> Data None"
    using engine_update_never_null [of env "trim i" p w] Pair by simp
  then show ?thesis
    using Pair update_messages_are_not_not_found other_failures_are_not_not_found
    by (auto simp: updateApplication_def Let_def split: option.splits Reply.splits)
qed

lemma PATCH_never_404: "http_status (fst (PATCH env i request w)) \<noteq> 404"
proof -
  have "http_status (fst (case updateApplication env i p w of
                (Failure e, w1) \<Rightarrow>
                  if includes_str e ''not found'' \<or> includes_str e ''access denied''
                  then (Response 404 (ErrorBody ''Application not found''), w1)
                  else (Response 500 (ErrorBody e), w1)
              | (Success r, w1) \<Rightarrow> (Response 200 (DataBody r), w1))) \<noteq> 404" for p
    using updateApplication_never_not_found [of env i p w]
    by (cases "updateApplication env i p w") (auto split: DataResult.splits)
  then show ?thesis
    by (simp add: PATCH_def split: option.splits sum.splits)
qed

text \<open>
  Claim C5 says that \<open>updateApplication\<close>, called by an authenticated user with a
  well-formed id that names no record of that user, returns the not-found outcome, and
  that \<open>PATCH\<close> answers 404. The code does not: \<open>.single()\<close> turns the empty result of the
  update into the error PGRST116, the error branch comes first, and the answer is the
  generic \<open>'Unable to update application. Please try again.'\<close>, which \<open>PATCH\<close> relays
  with status 500. The branch that returns \<open>'Application not found or access denied'\<close> is
  never taken (lemma \<open>PATCH_never_404\<close>: no request at all is answered with 404). This
  holds for every such call while the engine works:
\<close>

theorem update_of_missing_record_is_generic_failure:
  assumes "getUser env = Some u" and "engine_error env = None"
    and "regex_test UUID_RE (trim i)"
    and "\<forall>r \<in> set (table w). user_id r = u \<longrightarrow> \<not> eq_id (trim i) r"
  shows "fst (updateApplication env i p w)
        = Failure ''Unable to update application. Please try again.''
    \<and> table (snd (updateApplication env i p w)) = table w
    \<and> (updateApplicationSchema env body = Inr p \<and> keys_length body = Some (Suc n) \<longrightarrow>
          fst (PATCH env i (Some body) w)
            = Response 500 (ErrorBody ''Unable to update application. Please try again.''))"
proof -
  have upd: "updateApplication env i p w
      = (Failure ''Unable to update application. Please try again.'',
         console_error ''Error updating application:'' PGRST116
           (send (UpdateById (trim i) p) w))"
    using assms(1,3) engine_update_no_row [OF assms(1,2,4)] matching_id_not_empty [OF assms(3)]
    by (simp add: updateApplication_def invalid_id_def update_message_PGRST116)
  have "i \<noteq> []"
    using matching_id_not_empty [OF assms(3)] by simp
  then show ?thesis
    using assms(1) unable_is_not_not_found
    by (simp add: upd PATCH_def console_error_def send_def)
qed

theorem update_of_missing_record_is_generic_failure_witness:
  "fst (updateApplication (session alice) fresh_id (only_status Offer) alice_store)
      = Failure ''Unable to update application. Please try again.''
    \<and> table (snd (updateApplication (session alice) fresh_id (only_status Offer) alice_store))
        = table alice_store
    \<and> fst (PATCH (session alice) fresh_id (Some (JObj [(''status'', JStr ''offer'')]))
             alice_store)
        = Response 500 (ErrorBody ''Unable to update application. Please try again.'')"
proof -
  have works: "engine_error (session alice) = None"
    by (simp add: session_def)
  have well_formed: "regex_test UUID_RE (trim fresh_id)"
    by code_simp
  have missing: "\<forall>r \<in> set (table alice_store). user_id r = alice \<longrightarrow> \<not> eq_id (trim fresh_id) r"
    by code_simp
  have parsed: "updateApplicationSchema (session alice) (JObj [(''status'', JStr ''offer'')])
      = Inr (only_status Offer)"
    by code_simp
  have keys: "keys_length (JObj [(''status'', JStr ''offer'')]) = Some (Suc 0)"
    by simp
  show ?thesis
    using parsed keys
      update_of_missing_record_is_generic_failure [OF getUser_session works well_formed missing,
        of "only_status Offer" "JObj [(''status'', JStr ''offer'')]" 0]
    by blast
qed

subsection \<open>What the caller sees of an engine error\<close>

lemma starts_with_self: "starts_with m m"
  by (induction m) auto

lemma includes_suffix: "includes_str (a @ m) m"
proof (induction a)
  case Nil
  show ?case
    using starts_with_self [of m] by (cases m) auto
next
  case (Cons c a)
  then show ?case
    by simp
qed

lemma sibling_messages_are_fixed:
  "fetch_error_message m \<in> {''Network error. Please check your internet connection.'',
      ''Request timed out. Please try again.'', ''Unable to load applications. Please try again.''}
    \<and> create_error_message m \<in> {''Network error. Please check your internet connection.'',
      ''Request timed out. Please try again.'', ''Invalid data. Please check your input.'',
      ''Unable to create application. Please try again.''}
    \<and> update_error_message m \<in> {''Network error. Please check your internet connection.'',
      ''Request timed out. Please try again.'', ''Invalid data. Please check your input.'',
      ''Unable to update application. Please try again.''}
    \<and> delete_error_message m \<in> {''Network error. Please check your internet connection.'',
      ''Request timed out. Please try again.'', ''Unable to delete application. Please try again.''}"
  by (simp add: fetch_error_message_def create_error_message_def update_error_message_def
      delete_error_message_def)

text \<open>
  Claim C9 says that no operation hands the engine's error text to its caller. The other
  four operations answer with one of a few fixed sentences (lemma
  \<open>sibling_messages_are_fixed\<close>), but \<open>getApplicationById\<close> does not: for every
  authenticated call with a well-formed id that meets an engine error with message \<open>m\<close>,
  the returned error is \<open>'Failed to fetch application: '\<close> followed by \<open>m\<close> itself.
\<close>

theorem getApplicationById_relays_engine_message:
  assumes "getUser env = Some u" and "regex_test UUID_RE (trim i)"
    and "engine_error env = Some m"
  shows "fst (getApplicationById env i w) = Failure (''Failed to fetch application: '' @ m)
    \<and> includes_str (''Failed to fetch application: '' @ m) m"
  using assms matching_id_not_empty [OF assms(2)]
    includes_suffix [of "''Failed to fetch application: ''" m]
  by (simp add: getApplicationById_def invalid_id_def engine_select_by_id_def Let_def)

theorem getApplicationById_relays_engine_message_witness:
  "fst (getApplicationById outage acme_id alice_store)
      = Failure ''Failed to fetch application: connection to server at 10.0.0.5 refused''
    \<and> includes_str ''Failed to fetch application: connection to server at 10.0.0.5 refused''
        ''connection to server at 10.0.0.5 refused''"
proof -
  have user: "getUser outage = Some alice"
    by (simp add: outage_def session_def getUser_def)
  have well_formed: "regex_test UUID_RE (trim acme_id)"
    by code_simp
  have broken: "engine_error outage = Some ''connection to server at 10.0.0.5 refused''"
    by (simp add: outage_def session_def)
  show ?thesis
    using getApplicationById_relays_engine_message [OF user well_formed broken, of alice_store]
    by simp
qed

subsection \<open>What an update changes\<close>










subsection \<open>Records of other owners\<close>

text \<open>
  What a caller gets from the four operations on existing records does not depend on the
  rows of other owners (the answers are those for the store without these rows), and no
  operation changes such a row.
\<close>

lemma rls_select_own:
  "rls_select (Some b) cond (filter (\<lambda>r. user_id r = b) rows) = rls_select (Some b) cond rows"
  by (induction rows) (auto simp: rls_select_def select_using_def)

lemma fst_engine_select_all:
  "getUser env = Some b \<Longrightarrow> fst (engine_select_all env (own_rows b w)) = fst (engine_select_all env w)"
  by (simp add: engine_select_all_def auth_uid_getUser rls_select_own own_rows_def
      Let_def send_def split: option.splits)

lemma fst_engine_select_by_id:
  "getUser env = Some b \<Longrightarrow> fst (engine_select_by_id env x (own_rows b w)) = fst (engine_select_by_id env x w)"
  by (simp add: engine_select_by_id_def auth_uid_getUser rls_select_own own_rows_def
      Let_def send_def split: option.splits list.splits)

lemma filter_own_again:
  "filter (\<lambda>r. user_id r = b \<and> cond r) (filter (\<lambda>r. user_id r = b) rows) = filter (\<lambda>r. user_id r = b \<and> cond r) rows"
  by (induction rows) auto

lemma fst_engine_update:
  "getUser env = Some b \<Longrightarrow> fst (engine_update env x p (own_rows b w)) = fst (engine_update env x p w)"
  by (simp add: engine_update_def auth_uid_getUser rls_update_owned filter_own_again own_rows_def
      Let_def send_def split: option.splits list.splits)

lemma fst_engine_delete:
  "getUser env = Some b \<Longrightarrow> fst (engine_delete env x (own_rows b w)) = fst (engine_delete env x w)"
  by (simp add: engine_delete_def auth_uid_getUser rls_delete_owned filter_own_again own_rows_def
      Let_def send_def split: option.splits list.splits)

lemma other_owners_rows_are_invisible:
  assumes "getUser env = Some b"
  shows "fst (getApplications env (own_rows b w)) = fst (getApplications env w)
    \<and> fst (getApplicationById env i (own_rows b w)) = fst (getApplicationById env i w)
    \<and> fst (updateApplication env i p (own_rows b w)) = fst (updateApplication env i p w)
    \<and> fst (deleteApplication env i (own_rows b w)) = fst (deleteApplication env i w)"
proof -
  have a: "fst (getApplications env (own_rows b w)) = fst (getApplications env w)"
    using assms fst_engine_select_all [OF assms, of w]
    by (cases "engine_select_all env (own_rows b w)"; cases "engine_select_all env w")
       (auto simp: getApplications_def split: Reply.splits)
  have b: "fst (getApplicationById env i (own_rows b w)) = fst (getApplicationById env i w)"
    using assms fst_engine_select_by_id [OF assms, of "trim i" w]
    by (cases "engine_select_by_id env (trim i) (own_rows b w)"; cases "engine_select_by_id env (trim i) w")
       (auto simp: getApplicationById_def Let_def split: Reply.splits)
  have c: "fst (updateApplication env i p (own_rows b w)) = fst (updateApplication env i p w)"
    using assms fst_engine_update [OF assms, of "trim i" p w]
    by (cases "engine_update env (trim i) p (own_rows b w)"; cases "engine_update env (trim i) p w")
       (auto simp: updateApplication_def Let_def split: Reply.splits option.splits)
  have d: "fst (deleteApplication env i (own_rows b w)) = fst (deleteApplication env i w)"
    using assms fst_engine_delete [OF assms, of "trim i" w]
    by (cases "engine_delete env (trim i) (own_rows b w)"; cases "engine_delete env (trim i) w")
       (auto simp: deleteApplication_def Let_def split: Reply.splits)
  show ?thesis using a b c d by simp
qed


lemma foreign_rows_untouched:
  assumes "getUser env = Some b"
  shows "filter (\<lambda>r. user_id r \<noteq> b) (table (snd (updateApplication env i p w)))
        = filter (\<lambda>r. user_id r \<noteq> b) (table w)
    \<and> filter (\<lambda>r. user_id r \<noteq> b) (table (snd (deleteApplication env i w)))
        = filter (\<lambda>r. user_id r \<noteq> b) (table w)
    \<and> table (snd (getApplications env w)) = table w
    \<and> table (snd (getApplicationById env i w)) = table w"
proof -
  have upd: "filter (\<lambda>r. user_id r \<noteq> b) (table (snd (engine_update env x p w)))
        = filter (\<lambda>r. user_id r \<noteq> b) (table w)" for x
  proof (cases "rls_update (Some b) (eq_id x) (apply_patch env p) (table w)")
    case None
    then show ?thesis using assms
      by (simp add: engine_update_def auth_uid_getUser Let_def send_def split: option.splits)
  next
    case (Some pair)
    obtain ret rows' where pair: "pair = (ret, rows')" by (cases pair)
    have "filter (\<lambda>r. user_id r \<noteq> b) rows' = filter (\<lambda>r. user_id r \<noteq> b) (table w)"
      using others_survive_update Some pair by blast
    then show ?thesis using assms Some pair
      by (simp add: engine_update_def auth_uid_getUser Let_def send_def split: option.splits list.splits)
  qed
  have del: "filter (\<lambda>r. user_id r \<noteq> b) (table (snd (engine_delete env x w)))
        = filter (\<lambda>r. user_id r \<noteq> b) (table w)" for x
    using assms others_survive_delete [of b "eq_id x" "table w"]
    by (auto simp: engine_delete_def auth_uid_getUser Let_def send_def
        split: option.splits prod.splits)
  have a: "filter (\<lambda>r. user_id r \<noteq> b) (table (snd (updateApplication env i p w)))
        = filter (\<lambda>r. user_id r \<noteq> b) (table w)"
    using assms upd [of "trim i"]
    by (cases "engine_update env (trim i) p w")
       (auto simp: updateApplication_def Let_def console_error_def split: Reply.splits option.splits)
  have b: "filter (\<lambda>r. user_id r \<noteq> b) (table (snd (deleteApplication env i w)))
        = filter (\<lambda>r. user_id r \<noteq> b) (table w)"
    using assms del [of "trim i"]
    by (cases "engine_delete env (trim i) w")
       (auto simp: deleteApplication_def Let_def console_error_def split: Reply.splits)
  have c: "table (snd (getApplications env w)) = table w"
    using assms
    by (auto simp: getApplications_def engine_select_all_def Let_def send_def console_error_def split: option.splits)
  have d: "table (snd (getApplicationById env i w)) = table w"
    using assms
    by (auto simp: getApplicationById_def engine_select_by_id_def Let_def send_def console_error_def split: option.splits list.splits)
  show ?thesis using a b c d by simp
qed


text \<open>
  Claim C2 says that a record of another user is never listed and that reading, updating
  or deleting it by id gives the not-found result of an id that does not exist. The
  answers are indeed those of a missing id (lemma \<open>other_owners_rows_are_invisible\<close>), and
  for \<open>getApplications\<close>, \<open>getApplicationById\<close> and \<open>deleteApplication\<close> they are the empty
  list, \<open>null\<close> and \<open>'Application not found or access denied: ...'\<close>. For
  \<open>updateApplication\<close> the answer is not a not-found result but the generic failure, with
  status 500 from \<open>PATCH\<close>, for the other user's record as for a missing one:
\<close>

theorem update_of_foreign_record_is_generic_failure:
  "fst (updateApplication (session bob) acme_id (only_status Offer) alice_store)
      = Failure ''Unable to update application. Please try again.''
    \<and> fst (updateApplication (session bob) fresh_id (only_status Offer) alice_store)
      = Failure ''Unable to update application. Please try again.''
    \<and> fst (PATCH (session bob) acme_id (Some (JObj [(''status'', JStr ''offer'')])) alice_store)
      = Response 500 (ErrorBody ''Unable to update application. Please try again.'')
    \<and> fst (getApplicationById (session bob) acme_id alice_store) = Success None
    \<and> fst (deleteApplication (session bob) acme_id alice_store)
      = Failure (''Application not found or access denied: '' @ acme_id)
    \<and> fst (DELETE (session bob) acme_id alice_store)
      = Response 404 (ErrorBody ''Application not found'')
    \<and> fst (getApplications (session bob) alice_store) = Success []"
  by code_simp

subsection \<open>Empty notes\<close>

text \<open>
  Claim C7 says that notes sent as the empty string are stored as \<open>null\<close>. The transform
  of both schemas tests \<open>val && val.trim() === ''\<close>, and the empty string is falsy, so it
  is returned as it is: a record created or updated with \<open>notes: ''\<close> holds the empty
  string. (Notes of blanks only do become \<open>null\<close>.)
\<close>

theorem empty_notes_are_stored_as_empty_string:
  "notes_transform (Some []) = Some (Some [])
    \<and> map notes (table (snd (POST (session alice) (Some (JObj (acme_fields (JStr []))))
                              empty_store))) = [Some []]
    \<and> map notes (table (snd (PATCH (session alice) acme_id
                              (Some (JObj [(''notes'', JStr [])])) alice_store))) = [Some []]
    \<and> map notes (table (snd (POST (session alice) (Some (JObj (acme_fields (JStr '' ''))))
                              empty_store))) = [None]"
  by code_simp

end
